theory Spec2Isabelle
  imports Complex_Main
begin

section \<open>Go strings and byte slices\<close>

text \<open>
  A Go \<^verbatim>\<open>string\<close> and a \<^verbatim>\<open>[]byte\<close> are sequences of bytes: both are
  \<^typ>\<open>string\<close> here. The functions of the packages \<^verbatim>\<open>strings\<close> and
  \<^verbatim>\<open>bytes\<close> that the client calls are written out below.
\<close>

definition LF :: char where
  "LF = CHR 0x0A"

definition CR :: char where
  "CR = CHR 0x0D"

text \<open>\<^verbatim>\<open>strings.HasPrefix(s, p)\<close>: \<open>s\<close> begins with \<open>p\<close>.\<close>

definition HasPrefix :: "string \<Rightarrow> string \<Rightarrow> bool" where
  "HasPrefix s p = (take (length p) s = p)"

text \<open>
  \<^verbatim>\<open>bytes.Index(s, sep)\<close> and \<^verbatim>\<open>strings.Index(s, sep)\<close>: the index of the
  first instance of \<open>sep\<close> in \<open>s\<close>; Go's \<open>-1\<close> (no instance) is \<open>None\<close>.
\<close>

fun Index :: "string \<Rightarrow> string \<Rightarrow> nat option" where
  "Index [] sep = (if sep = [] then Some 0 else None)"
| "Index (c # cs) sep =
     (if HasPrefix (c # cs) sep then Some 0
      else (case Index cs sep of None \<Rightarrow> None | Some i \<Rightarrow> Some (Suc i)))"

text \<open>\<^verbatim>\<open>strings.Contains(s, sub)\<close> is \<^verbatim>\<open>Index(s, sub) >= 0\<close>.\<close>

definition Contains :: "string \<Rightarrow> string \<Rightarrow> bool" where
  "Contains s sub = (Index s sub \<noteq> None)"

text \<open>
  \<^verbatim>\<open>strings.Count(s, "/")\<close>: the number of instances of a one-byte substring is the
  number of occurrences of that byte.
\<close>

definition Count_byte :: "string \<Rightarrow> char \<Rightarrow> nat" where
  "Count_byte s c = length (filter (\<lambda>x. x = c) s)"

text \<open>
  \<^verbatim>\<open>strings.SplitN(s, sep, 2)\<close> for a non-empty \<open>sep\<close>: at most two substrings, the
  second one the unsplit remainder.
\<close>

definition SplitN2 :: "string \<Rightarrow> string \<Rightarrow> string list" where
  "SplitN2 s sep =
     (case Index s sep of
        None \<Rightarrow> [s]
      | Some i \<Rightarrow> [take i s, drop (i + length sep) s])"

text \<open>
  \<^verbatim>\<open>bytes.Cut(s, sep)\<close>: the text before and after the first instance of \<open>sep\<close>, and
  whether \<open>sep\<close> was found. Without an instance it returns \<open>s, nil, false\<close>.
\<close>

definition Cut :: "string \<Rightarrow> string \<Rightarrow> string \<times> string \<times> bool" where
  "Cut s sep =
     (case Index s sep of
        None \<Rightarrow> (s, [], False)
      | Some i \<Rightarrow> (take i s, drop (i + length sep) s, True))"

section \<open>Values, errors and outcomes\<close>

text \<open>
  A value of Go's \<^verbatim>\<open>any\<close> as the client meets it: what \<^verbatim>\<open>encoding/json\<close> decodes
  into an \<^verbatim>\<open>any\<close> (nil, bool, float64, string, slice, map) and the header multimap
  that \<^verbatim>\<open>deserializeUnaryResponse\<close> stores under \<^verbatim>\<open>httpHeaders\<close>. A JSON number
  (a finite \<^verbatim>\<open>float64\<close>) is carried as the rational it denotes.
\<close>

datatype any =
    AnyNil
  | AnyBool bool
  | AnyFloat64 rat
  | AnyString string
  | AnySlice "any list"
  | AnyMap "(string \<times> any) list"
  | AnyHeader "(string \<times> string list) list"

type_synonym payload = "(string \<times> any) list"

text \<open>
  A \<^verbatim>\<open>map[string]any\<close>: its entries, or \<open>None\<close> for the nil map (what
  \<^verbatim>\<open>json.Unmarshal\<close> leaves behind for the JSON text \<^verbatim>\<open>null\<close>).
\<close>

type_synonym map_string_any = "payload option"

text \<open>The fields of \<^verbatim>\<open>APIError\<close>.\<close>

record APIError =
  Code :: int
  Message :: string
  Status :: string
  Details :: "payload list"

text \<open>
  Go \<^verbatim>\<open>error\<close> values. \<open>Errorf\<close> is \<^verbatim>\<open>fmt.Errorf\<close> with its format string and
  its arguments in order (\<open>W\<close> is an error argument, wrapped by \<^verbatim>\<open>%w\<close> or printed
  by \<^verbatim>\<open>%v\<close>, \<open>V\<close> a map printed by \<^verbatim>\<open>%#v\<close>); \<open>LibError\<close> is an error value handed back by a library call;
  \<open>APIErrorValue\<close> is an \<^verbatim>\<open>APIError\<close> returned as an \<^verbatim>\<open>error\<close>.
\<close>

datatype error =
    Errorf string "fmt_arg list"
  | LibError string
  | APIErrorValue APIError
and fmt_arg =
    S string
  | I int
  | W error
  | V payload

text \<open>
  What a call does: it returns its results, or it panics. A function with the results
  \<^verbatim>\<open>(T, error)\<close> returns a value of \<open>error + T\<close>, with \<open>Inl\<close> the non-nil error.
\<close>

datatype 'a go =
    Returns 'a
  | Panics string

section \<open>The client configuration\<close>

text \<open>
  Modelled from the spec: the declarations of \<^verbatim>\<open>Backend\<close> and \<^verbatim>\<open>ClientConfig\<close>
  are not among the sources. The spec gives two backends; the code names the hosted one
  \<^verbatim>\<open>BackendVertexAI\<close> and reads the fields \<^verbatim>\<open>Backend\<close>, \<^verbatim>\<open>Project\<close>,
  \<^verbatim>\<open>Location\<close> and \<^verbatim>\<open>APIKey\<close>.
\<close>

datatype Backend = BackendGeminiAPI | BackendVertexAI

record ClientConfig =
  Backend :: Backend
  Project :: string
  Location :: string
  APIKey :: string

record apiClient =
  clientConfig :: ClientConfig

section \<open>Resource Namer (transformer.go)\<close>

definition tResourceName :: "apiClient \<Rightarrow> string \<Rightarrow> string \<Rightarrow> int \<Rightarrow> string" where
  "tResourceName ac resourceName collectionIdentifier collectionHierarchyDepth =
     (let shouldPrependCollectionIdentifier =
            (\<not> HasPrefix resourceName (collectionIdentifier @ ''/'') \<and>
             int (Count_byte (collectionIdentifier @ ''/'' @ resourceName) CHR ''/'') + 1
               = collectionHierarchyDepth)
      in case Backend (clientConfig ac) of
           BackendVertexAI \<Rightarrow>
             if HasPrefix resourceName ''projects/'' then resourceName
             else if HasPrefix resourceName ''locations/'' then
               ''projects/'' @ Project (clientConfig ac) @ ''/'' @ resourceName
             else if HasPrefix resourceName (collectionIdentifier @ ''/'') then
               ''projects/'' @ Project (clientConfig ac) @ ''/locations/''
                 @ Location (clientConfig ac) @ ''/'' @ resourceName
             else if shouldPrependCollectionIdentifier then
               ''projects/'' @ Project (clientConfig ac) @ ''/locations/''
                 @ Location (clientConfig ac) @ ''/'' @ collectionIdentifier @ ''/''
                 @ resourceName
             else resourceName
         | _ \<Rightarrow>
             if shouldPrependCollectionIdentifier then
               collectionIdentifier @ ''/'' @ resourceName
             else resourceName)"

text \<open>
  \<^verbatim>\<open>name.(string)\<close> is a type assertion with no \<^verbatim>\<open>ok\<close> result: it panics when
  \<open>name\<close> does not hold a string. The error result is nil on every return.
\<close>

definition tCachedContentName :: "apiClient \<Rightarrow> any \<Rightarrow> (error + string) go" where
  "tCachedContentName ac name =
     (case name of
        AnyString s \<Rightarrow> Returns (Inr (tResourceName ac s ''cachedContents'' 2))
      | _ \<Rightarrow> Panics ''interface conversion: interface {} is not string'')"

text \<open>
  \<^verbatim>\<open>parts[0]\<close> and \<^verbatim>\<open>parts[1]\<close> of the \<^verbatim>\<open>SplitN\<close> result; an index out of range
  panics.
\<close>

definition tModel :: "apiClient \<Rightarrow> any \<Rightarrow> (error + string) go" where
  "tModel ac origin =
     (case origin of
        AnyString model \<Rightarrow>
          if model = [] then Returns (Inl (Errorf ''tModel: model is empty'' []))
          else if Backend (clientConfig ac) = BackendVertexAI then
            if HasPrefix model ''projects/'' \<or> HasPrefix model ''models/''
               \<or> HasPrefix model ''publishers/''
            then Returns (Inr model)
            else if Contains model ''/'' then
              (case SplitN2 model ''/'' of
                 p0 # p1 # _ \<Rightarrow> Returns (Inr (''publishers/'' @ p0 @ ''/models/'' @ p1))
               | _ \<Rightarrow> Panics ''index out of range'')
            else Returns (Inr (''publishers/google/models/'' @ model))
          else
            if HasPrefix model ''models/'' \<or> HasPrefix model ''tunedModels/''
            then Returns (Inr model)
            else Returns (Inr (''models/'' @ model))
      | _ \<Rightarrow> Returns (Inl (Errorf ''tModel: model is not a string'' [])))"

definition tModelFullName :: "apiClient \<Rightarrow> any \<Rightarrow> (error + string) go" where
  "tModelFullName ac origin =
     (case origin of
        AnyString model \<Rightarrow>
          (case tModel ac (AnyString model) of
             Panics p \<Rightarrow> Panics p
           | Returns (Inl err) \<Rightarrow> Returns (Inl (Errorf ''tModelFullName: %w'' [W err]))
           | Returns (Inr name) \<Rightarrow>
               if HasPrefix name ''publishers/''
                  \<and> Backend (clientConfig ac) = BackendVertexAI
               then Returns (Inr (''projects/'' @ Project (clientConfig ac) @ ''/locations/''
                        @ Location (clientConfig ac) @ ''/'' @ name))
               else if HasPrefix name ''models/''
                  \<and> Backend (clientConfig ac) = BackendVertexAI
               then Returns (Inr (''projects/'' @ Project (clientConfig ac) @ ''/locations/''
                        @ Location (clientConfig ac) @ ''/publishers/google/'' @ name))
               else Returns (Inr name))
      | _ \<Rightarrow> Returns (Inl (Errorf ''tModelFullName: model is not a string'' [])))"

definition tCachesModel :: "apiClient \<Rightarrow> any \<Rightarrow> (error + string) go" where
  "tCachesModel ac origin = tModelFullName ac origin"

section \<open>Stream Decoder: the split function\<close>

text \<open>\<^verbatim>\<open>dropCR\<close> drops one terminal carriage return.\<close>

definition dropCR :: "string \<Rightarrow> string" where
  "dropCR data = (if data \<noteq> [] \<and> last data = CR then butlast data else data)"

text \<open>
  \<^verbatim>\<open>scan\<close> is the \<^verbatim>\<open>bufio.SplitFunc\<close> of the response scanner. It returns the
  number of bytes to advance and the token; a nil token (\<open>None\<close>) asks the scanner to
  read more, or ends the scan at the end of the input. Its error result is nil on every
  path and is left out.
\<close>

definition scan :: "string \<Rightarrow> bool \<Rightarrow> nat \<times> string option" where
  "scan data atEOF =
     (if atEOF \<and> data = [] then (0, None)
      else case Index data [LF, LF] of
        Some i \<Rightarrow> (i + 2, Some (dropCR (take i data)))
      | None \<Rightarrow>
         (case Index data [CR, LF, CR, LF] of
            Some i \<Rightarrow> (i + 4, Some (dropCR (take i data)))
          | None \<Rightarrow>
              if atEOF then (length data, Some (dropCR data))
              else (0, None)))"

section \<open>Transport Executor\<close>

text \<open>
  An \<^verbatim>\<open>http.Response\<close> as the client reads it: the status code, the status text
  (\<^verbatim>\<open>resp.Status\<close>, such as \<^verbatim>\<open>404 Not Found\<close>), the header multimap, and the body as
  the result of \<^verbatim>\<open>io.ReadAll(resp.Body)\<close>: the bytes read and the read error, if any.
\<close>

record Response =
  StatusCode :: int
  StatusText :: string
  Header :: "(string \<times> string list) list"
  Body :: "string \<times> error option"

text \<open>\<^verbatim>\<open>Header.Get(key)\<close> for a key in canonical form: the first value, or the empty string.\<close>

definition Header_Get :: "(string \<times> string list) list \<Rightarrow> string \<Rightarrow> string" where
  "Header_Get h key = (case map_of h key of Some (v # _) \<Rightarrow> v | _ \<Rightarrow> [])"

record responseWithError =
  ErrorInfo :: "APIError option"

text \<open>
  The calls into \<^verbatim>\<open>encoding/json\<close>, taken as parameters: the code under
  verification is the client's, not the library's. Each \<^verbatim>\<open>Unmarshal\<close> gives the error
  it returns and the value left in its target; \<open>'f\<close> is the client's \<^verbatim>\<open>File\<close> struct,
  whose declaration is not among the sources.
\<close>

record 'f encoding_json =
  Unmarshal_responseWithError :: "string \<Rightarrow> error option \<times> responseWithError"
  Unmarshal_map :: "string \<Rightarrow> error option \<times> map_string_any"
  Encode_map :: "payload \<Rightarrow> error + string"
  Unmarshal_File :: "string \<Rightarrow> error option \<times> 'f"

definition httpStatusOk :: "Response \<Rightarrow> bool" where
  "httpStatusOk resp = (StatusCode resp \<ge> 200 \<and> StatusCode resp < 300)"

text \<open>
  \<^verbatim>\<open>newAPIError\<close> returns an \<^verbatim>\<open>error\<close>. \<^verbatim>\<open>*respWithError.ErrorInfo\<close> dereferences a
  pointer that is nil unless the decoder has set it.
\<close>

definition newAPIError :: "'f encoding_json \<Rightarrow> Response \<Rightarrow> error go" where
  "newAPIError js resp =
     (case Body resp of
        (body, Some err) \<Rightarrow>
          Returns (Errorf ''newAPIError: error reading response body: %w. Response: %v''
                     [W err, S body])
      | (body, None) \<Rightarrow>
          if length body > 0 then
            (case Unmarshal_responseWithError js body of
               (Some err, _) \<Rightarrow>
                 Returns (Errorf
                   ''newAPIError: unmarshal response to error failed: %w. Response: %v''
                   [W err, S body])
             | (None, respWithError) \<Rightarrow>
                 (case ErrorInfo respWithError of
                    None \<Rightarrow> Panics ''invalid memory address or nil pointer dereference''
                  | Some e \<Rightarrow> Returns (APIErrorValue e)))
          else Returns (APIErrorValue
                 \<lparr>Code = StatusCode resp, Message = [], Status = StatusText resp,
                  Details = []\<rparr>))"

text \<open>\<^verbatim>\<open>m[key] = v\<close>; an assignment to an entry of the nil map panics.\<close>

definition map_assign :: "payload \<Rightarrow> string \<Rightarrow> any \<Rightarrow> payload" where
  "map_assign m key v = (key, v) # filter (\<lambda>kv. fst kv \<noteq> key) m"

definition deserializeUnaryResponse ::
  "'f encoding_json \<Rightarrow> Response \<Rightarrow> (error + payload) go" where
  "deserializeUnaryResponse js resp =
     (if \<not> httpStatusOk resp then
        (case newAPIError js resp of
           Returns err \<Rightarrow> Returns (Inl err)
         | Panics p \<Rightarrow> Panics p)
      else case Body resp of
        (respBody, Some err) \<Rightarrow> Returns (Inl err)
      | (respBody, None) \<Rightarrow>
          (case (if length respBody > 0 then Unmarshal_map js respBody else (None, Some [])) of
             (Some err, _) \<Rightarrow>
               Returns (Inl (Errorf
                 ''deserializeUnaryResponse: error unmarshalling response: %w\<newline>%s''
                 [W err, S respBody]))
           | (None, None) \<Rightarrow> Panics ''assignment to entry in nil map''
           | (None, Some output) \<Rightarrow>
               Returns (Inr (map_assign output ''httpHeaders'' (AnyHeader (Header resp))))))"

section \<open>Stream Decoder: the iterator\<close>

text \<open>
  An item of the \<^verbatim>\<open>iter.Seq2[*R, error]\<close>: what one call of \<^verbatim>\<open>yield\<close> hands to the
  consumer. The state of a run is the items yielded so far and the maps the response
  converter has been called with so far, both oldest first.
\<close>

type_synonym 'r item = "'r option \<times> error option"

record 'r run =
  yielded :: "'r item list"
  converted :: "map_string_any list"

text \<open>
  \<^verbatim>\<open>yield(v, err)\<close> runs the consumer's loop body on the item and returns false when
  the consumer stops pulling. The consumer is \<open>keep\<close>: it sees the items it has received,
  the last one included.
\<close>

definition yield :: "('r item list \<Rightarrow> bool) \<Rightarrow> 'r run \<Rightarrow> 'r item \<Rightarrow> bool \<times> 'r run" where
  "yield keep st it =
     (let st' = st\<lparr>yielded := yielded st @ [it]\<rparr> in (keep (yielded st'), st'))"

text \<open>
  The body of \<^verbatim>\<open>iterateResponseStream\<close>'s loop for one token \<open>line\<close>. The result is
  the new state and whether the loop goes on (false where the source returns).
\<close>

definition iterateToken ::
  "'f encoding_json \<Rightarrow> (map_string_any \<Rightarrow> 'r option \<times> error option) \<Rightarrow>
   ('r item list \<Rightarrow> bool) \<Rightarrow> string \<Rightarrow> 'r run \<Rightarrow> bool \<times> 'r run" where
  "iterateToken js responseConverter keep line st =
     (if length line = 0 then (True, st)
      else case Cut line '':'' of (prefix, data, _) \<Rightarrow>
        if prefix = ''data'' then
          (case Unmarshal_map js data of (uerr, respRaw) \<Rightarrow>
            (case (case uerr of
                     Some err \<Rightarrow>
                       yield keep st
                         (None, Some (Errorf
                            ''iterateResponseStream: error unmarshalling data %s:%s. error: %w''
                            [S prefix, S data, W err]))
                   | None \<Rightarrow> (True, st)) of
               (False, st1) \<Rightarrow> (False, st1)
             | (True, st1) \<Rightarrow>
                (case responseConverter respRaw of (resp, cerr) \<Rightarrow>
                  (case (case cerr of
                           Some err \<Rightarrow>
                             yield keep (st1\<lparr>converted := converted st1 @ [respRaw]\<rparr>)
                               (None, Some err)
                         | None \<Rightarrow> (True, st1\<lparr>converted := converted st1 @ [respRaw]\<rparr>)) of
                     (False, st2) \<Rightarrow> (False, st2)
                   | (True, st2) \<Rightarrow> yield keep st2 (resp, None)))))
        else
          yield keep st
            (None, Some (Errorf ''iterateResponseStream: invalid stream chunk: %s:%s''
               [S prefix, S data])))"

text \<open>
  \<^verbatim>\<open>iterateResponseStream\<close> over the tokens that the scanner delivers, in order: the
  successive values of \<^verbatim>\<open>rs.r.Bytes()\<close> while \<^verbatim>\<open>rs.r.Scan()\<close> is true. The body is
  closed and the scanner's error is logged on every way out; neither changes the items.
\<close>

fun iterateResponseStream ::
  "'f encoding_json \<Rightarrow> (map_string_any \<Rightarrow> 'r option \<times> error option) \<Rightarrow>
   ('r item list \<Rightarrow> bool) \<Rightarrow> string list \<Rightarrow> 'r run \<Rightarrow> 'r run" where
  "iterateResponseStream js responseConverter keep [] st = st"
| "iterateResponseStream js responseConverter keep (line # rest) st =
     (case iterateToken js responseConverter keep line st of
        (False, st') \<Rightarrow> st'
      | (True, st') \<Rightarrow> iterateResponseStream js responseConverter keep rest st')"

section \<open>Chunked Uploader\<close>

definition maxChunkSize :: int where
  "maxChunkSize = 8 * 1024 * 1024"

text \<open>
  One upload request: the three headers that \<^verbatim>\<open>uploadFile\<close> sets itself, the offset
  and the length before \<^verbatim>\<open>strconv.FormatInt\<close> prints them in base 10, and the body
  \<^verbatim>\<open>buffer[:bytesRead]\<close>. The merged option and SDK headers are left out.
\<close>

record upload_request =
  X_Goog_Upload_Command :: string
  X_Goog_Upload_Offset :: int
  Content_Length :: int
  chunk :: string

text \<open>
  What \<^verbatim>\<open>uploadFile\<close> calls outside the client's code. \<open>Read\<close> is the source
  \<^verbatim>\<open>r\<close>: given the sizes of the buffers of all calls of \<^verbatim>\<open>r.Read\<close> so far, the
  present call last, it gives the bytes this call reads and its error. \<open>NewRequest\<close> is
  the error of \<^verbatim>\<open>http.NewRequestWithContext\<close> for the upload URL. \<open>Do\<close> is the HTTP
  client and the server behind it: given all requests sent so far, the present one last,
  it gives the transport error or the response.
\<close>

record 'f upload_env =
  Read :: "nat list \<Rightarrow> string \<times> error option"
  NewRequest :: "error option"
  Do :: "upload_request list \<Rightarrow> error + Response"
  json :: "'f encoding_json"

text \<open>
  The variables of \<^verbatim>\<open>uploadFile\<close>, with the buffer sizes read and the requests sent
  so far.
\<close>

record upload_state =
  offset :: int
  resp :: "Response option"
  respBody :: map_string_any
  uploadCommand :: string
  reads :: "nat list"
  sent :: "upload_request list"

datatype flow =
    Next
  | Break
  | Return_error error
  | Panic_with string

text \<open>
  \<^verbatim>\<open>doRequest\<close> wraps the transport error.
\<close>

definition doRequest :: "'f upload_env \<Rightarrow> upload_request list \<Rightarrow> error + Response" where
  "doRequest env reqs =
     (case Do env reqs of
        Inl err \<Rightarrow> Inl (Errorf ''doRequest: error sending request: %w'' [W err])
      | Inr r \<Rightarrow> Inr r)"

text \<open>
  One pass through the body of the loop of \<^verbatim>\<open>uploadFile\<close>.
  \<^verbatim>\<open>int64(math.Min(maxChunkSize, float64(uploadSize-offset)))\<close> is the smaller of the two
  numbers when the difference is not negative (a difference below the ceiling is exact as
  a \<^verbatim>\<open>float64\<close>, a larger one stays larger); a negative difference gives a negative
  chunk size, and \<^verbatim>\<open>make([]byte, chunkSize)\<close> panics. The offset never exceeds
  \<open>uploadSize\<close>, so no \<^verbatim>\<open>int64\<close> sum overflows.
\<close>

definition uploadChunk :: "'f upload_env \<Rightarrow> int \<Rightarrow> upload_state \<Rightarrow> flow \<times> upload_state" where
  "uploadChunk env uploadSize st =
     (let chunkSize = min maxChunkSize (uploadSize - offset st);
          st1 = (if offset st + chunkSize \<ge> uploadSize
                 then st\<lparr>uploadCommand := uploadCommand st @ '', finalize''\<rparr> else st)
      in if chunkSize < 0 then (Panic_with ''makeslice: len out of range'', st1)
      else
        let st2 = st1\<lparr>reads := reads st1 @ [nat chunkSize]\<rparr> in
        case Read env (reads st2) of
          (buffer, Some err) \<Rightarrow>
            (Return_error (Errorf ''Failed to read %d bytes from file at offset %d: %w''
               [I chunkSize, I (offset st), W err]), st2)
        | (buffer, None) \<Rightarrow>
            if int (length buffer) \<noteq> chunkSize then
              (Return_error (Errorf
                 ''Failed to read %d bytes from file at offset %d. bytes actually read: %d''
                 [I chunkSize, I (offset st), I (int (length buffer))]), st2)
            else case NewRequest env of
              Some err \<Rightarrow>
                (Return_error (Errorf
                   ''Failed to create upload request for chunk at offset %d: %w''
                   [I (offset st), W err]), st2)
            | None \<Rightarrow>
                let req = \<lparr>X_Goog_Upload_Command = uploadCommand st2,
                           X_Goog_Upload_Offset = offset st2,
                           Content_Length = chunkSize,
                           chunk = buffer\<rparr>;
                    st3 = st2\<lparr>sent := sent st2 @ [req]\<rparr>
                in case doRequest env (sent st3) of
                  Inl err \<Rightarrow>
                    (Return_error (Errorf
                       ''upload request failed for chunk at offset %d: %w''
                       [I (offset st), W err]), st3)
                | Inr response \<Rightarrow>
                    let st4 = st3\<lparr>resp := Some response\<rparr> in
                    case deserializeUnaryResponse (json env) response of
                      Panics p \<Rightarrow> (Panic_with p, st4)
                    | Returns (Inl err) \<Rightarrow>
                        (Return_error (Errorf
                           ''response body is invalid for chunk at offset %d: %w''
                           [I (offset st), W err]), st4\<lparr>respBody := None\<rparr>)
                    | Returns (Inr body) \<Rightarrow>
                        let st5 = st4\<lparr>respBody := Some body,
                                      offset := offset st4 + chunkSize\<rparr>
                        in if Header_Get (Header response) ''X-Goog-Upload-Status''
                              \<noteq> ''active''
                           then (Break, st5)
                           else if uploadSize \<le> offset st5 then
                             (Return_error (Errorf
                                ''All content has been uploaded, but the upload status is not finalized''
                                []), st5)
                           else (Next, st5))"

text \<open>The \<^verbatim>\<open>for\<close> loop: it goes round while the pass ends at the bottom of the body.\<close>

function uploadLoop :: "'f upload_env \<Rightarrow> int \<Rightarrow> upload_state \<Rightarrow> flow \<times> upload_state" where
  "uploadLoop env uploadSize st =
     (case uploadChunk env uploadSize st of
        (Next, st') \<Rightarrow> uploadLoop env uploadSize st'
      | (f, st') \<Rightarrow> (f, st'))"
  by pat_completeness auto
termination
proof (relation "measure (\<lambda>(env, uploadSize, st). nat (uploadSize - offset st))")
  show "wf (measure (\<lambda>(env :: 'f upload_env, uploadSize, st). nat (uploadSize - offset st)))"
    by simp
next
  fix env :: "'f upload_env" and uploadSize :: int and st f st'
  assume "(f, st') = uploadChunk env uploadSize st" and "f = Next"
  then have step: "uploadChunk env uploadSize st = (Next, st')"
    by simp
  have "offset st < offset st' \<and> offset st' < uploadSize"
    using step
    by (auto simp: uploadChunk_def Let_def maxChunkSize_def
             split: if_splits prod.splits option.splits sum.splits go.splits)
  then show "((env, uploadSize, st'), (env, uploadSize, st))
             \<in> measure (\<lambda>(env, uploadSize, st). nat (uploadSize - offset st))"
    by simp
qed

declare uploadLoop.simps [simp del]

text \<open>
  \<^verbatim>\<open>mapToStruct\<close> encodes the map and decodes the text into the struct.
\<close>

definition mapToStruct :: "'f encoding_json \<Rightarrow> payload \<Rightarrow> error + 'f" where
  "mapToStruct js input =
     (case Encode_map js input of
        Inl err \<Rightarrow> Inl (Errorf ''mapToStruct: error encoding input %#v: %w'' [V input, W err])
      | Inr b \<Rightarrow>
          (case Unmarshal_File js b of
             (Some err, _) \<Rightarrow>
               Inl (Errorf ''mapToStruct: error unmarshalling input %#v: %w'' [V input, W err])
           | (None, output) \<Rightarrow> Inr output))"

text \<open>
  \<^verbatim>\<open>uploadFile\<close>: the loop, then the checks after it. The result comes with the
  requests sent, in order. \<^verbatim>\<open>respBody["file"].(map[string]any)\<close> panics unless the
  entry holds a map.
\<close>

definition uploadFile ::
  "'f upload_env \<Rightarrow> int \<Rightarrow> (error + 'f) go \<times> upload_request list" where
  "uploadFile env uploadSize =
     (case uploadLoop env uploadSize
             \<lparr>offset = 0, resp = None, respBody = None, uploadCommand = ''upload'',
              reads = [], sent = []\<rparr> of
        (Panic_with p, st) \<Rightarrow> (Panics p, sent st)
      | (Return_error err, st) \<Rightarrow> (Returns (Inl err), sent st)
      | (_, st) \<Rightarrow>
          (case resp st of
             None \<Rightarrow>
               (Returns (Inl (Errorf ''Upload request failed. No response received'' [])),
                sent st)
           | Some r \<Rightarrow>
               if Header_Get (Header r) ''X-Goog-Upload-Status'' \<noteq> ''final'' then
                 (Returns (Inl (Errorf
                    ''Failed to upload file: Upload status is not finalized'' [])), sent st)
               else
                 (case (case respBody st of None \<Rightarrow> None | Some m \<Rightarrow> map_of m ''file'') of
                    Some (AnyMap file) \<Rightarrow>
                      (case mapToStruct (json env) file of
                         Inl err \<Rightarrow> (Returns (Inl err), sent st)
                       | Inr response \<Rightarrow> (Returns (Inr response), sent st))
                  | _ \<Rightarrow>
                      (Panics ''interface conversion: interface {} is not map[string]interface {}'',
                       sent st))))"

section \<open>Realtime Session\<close>

text \<open>
  Modelled from the spec: the declarations of \<^verbatim>\<open>LiveClientMessage\<close> and
  \<^verbatim>\<open>LiveClientSetup\<close> are not among the sources. \<^verbatim>\<open>Connect\<close> fills the fields
  \<^verbatim>\<open>Model\<close>, \<^verbatim>\<open>GenerationConfig\<close>, \<^verbatim>\<open>SystemInstruction\<close> and \<^verbatim>\<open>Tools\<close> of a
  setup and the field \<^verbatim>\<open>Setup\<close> of a message; the other payloads of a message are the
  extension \<open>'a\<close> of the record scheme, the types of the configuration values are left
  open.
\<close>

typedecl GenerationConfig
typedecl Content
typedecl Tool

record LiveClientSetup =
  Model :: string
  GenerationConfig :: "GenerationConfig option"
  SystemInstruction :: "Content option"
  Tools :: "Tool list"

record LiveClientMessage =
  Setup :: "LiveClientSetup option"

text \<open>\<^verbatim>\<open>websocket.TextMessage\<close>.\<close>

definition TextMessage :: int where
  "TextMessage = 1"

text \<open>
  The connection of a session: the frames handed to \<^verbatim>\<open>conn.WriteMessage\<close> so far, each
  with its message type. \<open>WriteMessage\<close> appends the frame; its error is what the socket
  answers (\<open>socket\<close>) for the frames written, the present one last.
\<close>

record Session =
  conn :: "(int \<times> string) list"

definition WriteMessage ::
  "((int \<times> string) list \<Rightarrow> error option) \<Rightarrow> Session \<Rightarrow> int \<Rightarrow> string \<Rightarrow> error option \<times> Session" where
  "WriteMessage socket s messageType data =
     (let s' = s\<lparr>conn := conn s @ [(messageType, data)]\<rparr> in (socket (conn s'), s'))"

text \<open>
  \<^verbatim>\<open>Send\<close>; \<open>Marshal\<close> is \<^verbatim>\<open>json.Marshal\<close> on a client message.
\<close>

definition Send ::
  "('a LiveClientMessage_scheme \<Rightarrow> error + string) \<Rightarrow>
   ((int \<times> string) list \<Rightarrow> error option) \<Rightarrow>
   Session \<Rightarrow> 'a LiveClientMessage_scheme \<Rightarrow> error option \<times> Session" where
  "Send Marshal socket s input =
     (if Setup input \<noteq> None then
        (Some (Errorf ''message SetUp is not supported in Send(). Use Connect() instead'' []),
         s)
      else case Marshal input of
        Inl err \<Rightarrow> (Some (Errorf ''marshal client message error: %w'' [W err]), s)
      | Inr data \<Rightarrow> WriteMessage socket s TextMessage data)"

section \<open>Notions for the statements\<close>

subsection \<open>Occurrences of a separator\<close>

text \<open>\<open>sep\<close> stands in \<open>s\<close> at the index \<open>i\<close>.\<close>

definition occurs_at :: "string \<Rightarrow> string \<Rightarrow> nat \<Rightarrow> bool" where
  "occurs_at sep s i = (take (length sep) (drop i s) = sep)"

subsection \<open>Two clients\<close>

text \<open>A client of the hosted backend and a client of the direct backend.\<close>

definition vertex_client :: apiClient where
  "vertex_client =
     \<lparr>clientConfig = \<lparr>Backend = BackendVertexAI, Project = ''p'', Location = ''l'', APIKey = []\<rparr>\<rparr>"

definition gemini_client :: apiClient where
  "gemini_client =
     \<lparr>clientConfig = \<lparr>Backend = BackendGeminiAPI, Project = [], Location = [], APIKey = ''k''\<rparr>\<rparr>"

subsection \<open>A sample of the JSON library\<close>

text \<open>
  The values that \<^verbatim>\<open>encoding/json\<close> gives to the texts of the examples below: the
  empty object, an error body and a body with an empty \<^verbatim>\<open>file\<close> object decoded, the
  empty map encoded (the encoder ends its output with a line feed), the empty object
  decoded into a \<^verbatim>\<open>File\<close>, here the one-element type. Every other text is a syntax
  error here.
\<close>

definition sample_error_body :: string where
  "sample_error_body =
     ''{\"error\":{\"code\":404,\"message\":\"not found\",\"status\":\"NOT_FOUND\"}}''"

definition sample_file_body :: string where
  "sample_file_body = ''{\"file\":{}}''"

definition sample_json :: "unit encoding_json" where
  "sample_json =
     \<lparr>Unmarshal_responseWithError =
        (\<lambda>b. if b = ''{}'' then (None, \<lparr>ErrorInfo = None\<rparr>)
             else if b = sample_error_body then
               (None, \<lparr>ErrorInfo = Some \<lparr>Code = 404, Message = ''not found'',
                                          Status = ''NOT_FOUND'', Details = []\<rparr>\<rparr>)
             else (Some (LibError ''invalid character''), \<lparr>ErrorInfo = None\<rparr>)),
      Unmarshal_map =
        (\<lambda>b. if b = ''{}'' then (None, Some [])
             else if b = sample_file_body then (None, Some [(''file'', AnyMap [])])
             else (Some (LibError ''invalid character''), Some [])),
      Encode_map =
        (\<lambda>m. if m = [] then Inr (''{}'' @ [LF]) else Inl (LibError ''unsupported value'')),
      Unmarshal_File =
        (\<lambda>b. if b = ''{}'' @ [LF] then (None, ())
             else (Some (LibError ''invalid character''), ()))\<rparr>"

definition response_500 :: "string \<Rightarrow> Response" where
  "response_500 body =
     \<lparr>StatusCode = 500, StatusText = ''500 Internal Server Error'', Header = [],
      Body = (body, None)\<rparr>"

definition response_404 :: "string \<Rightarrow> Response" where
  "response_404 body =
     \<lparr>StatusCode = 404, StatusText = ''404 Not Found'', Header = [],
      Body = (body, None)\<rparr>"

text \<open>
  The body of the response is read without error, is not empty, and is decoded without
  error into a \<^verbatim>\<open>responseWithError\<close> whose \<^verbatim>\<open>ErrorInfo\<close> is still nil.
\<close>

definition error_object_missing :: "'f encoding_json \<Rightarrow> Response \<Rightarrow> bool" where
  "error_object_missing js rsp =
     (case Body rsp of
        (body, None) \<Rightarrow>
          body \<noteq> [] \<and>
          (case Unmarshal_responseWithError js body of
             (None, respWithError) \<Rightarrow> ErrorInfo respWithError = None
           | (Some err, _) \<Rightarrow> False)
      | (body, Some err) \<Rightarrow> False)"

subsection \<open>The split function as specified\<close>

text \<open>
  The split function as claim C1 words it: the first blank-line delimiter of either
  kind, by its index and its length; the token is the text before it with one trailing
  carriage return dropped; without a delimiter, the remaining bytes at the end of the
  input, and no token otherwise.
\<close>

definition first_delimiter :: "string \<Rightarrow> (nat \<times> nat) option" where
  "first_delimiter data =
     (case (Index data [LF, LF], Index data [CR, LF, CR, LF]) of
        (None, None) \<Rightarrow> None
      | (Some i, None) \<Rightarrow> Some (i, 2)
      | (None, Some j) \<Rightarrow> Some (j, 4)
      | (Some i, Some j) \<Rightarrow> if j < i then Some (j, 4) else Some (i, 2))"

definition scan_as_specified :: "string \<Rightarrow> bool \<Rightarrow> nat \<times> string option" where
  "scan_as_specified data atEOF =
     (case first_delimiter data of
        Some (i, n) \<Rightarrow> (i + n, Some (dropCR (take i data)))
      | None \<Rightarrow> if atEOF then (length data, Some data) else (0, None))"

text \<open>
  A buffer with a Windows-style delimiter at index 1 and two line feeds at index 6.
\<close>

definition mixed_buffer :: string where
  "mixed_buffer = [CHR ''a'', CR, LF, CR, LF, CHR ''b'', LF, LF]"

subsection \<open>The start of a run of the iterator\<close>

text \<open>The state of a run before the first token.\<close>

definition empty_run :: "'r run" where
  "empty_run = \<lparr>yielded = [], converted = []\<rparr>"

subsection \<open>Uploads\<close>

text \<open>The variables of \<^verbatim>\<open>uploadFile\<close> before the loop.\<close>

definition initial_upload_state :: upload_state where
  "initial_upload_state =
     \<lparr>offset = 0, resp = None, respBody = None, uploadCommand = ''upload'',
      reads = [], sent = []\<rparr>"

text \<open>
  A request is well sized for the total \<open>n\<close>: its length is the smaller of the ceiling
  and of what remains from its offset, and its body has that length.
\<close>

definition well_sized :: "int \<Rightarrow> upload_request \<Rightarrow> bool" where
  "well_sized n req =
     (Content_Length req = min maxChunkSize (n - X_Goog_Upload_Offset req) \<and>
      int (length (chunk req)) = Content_Length req)"

text \<open>The two requests of an upload of twice the ceiling, with their bodies.\<close>

definition first_chunk :: "string \<Rightarrow> upload_request" where
  "first_chunk b =
     \<lparr>X_Goog_Upload_Command = ''upload'', X_Goog_Upload_Offset = 0,
      Content_Length = maxChunkSize, chunk = b\<rparr>"

definition second_chunk :: "string \<Rightarrow> upload_request" where
  "second_chunk b =
     \<lparr>X_Goog_Upload_Command = ''upload, finalize'', X_Goog_Upload_Offset = maxChunkSize,
      Content_Length = maxChunkSize, chunk = b\<rparr>"

subsection \<open>A sample of the upload environment\<close>

text \<open>
  A source like a \<^verbatim>\<open>bytes.Reader\<close> over \<open>src\<close>: a call of \<^verbatim>\<open>Read\<close> gives the bytes that
  fit into the buffer from the position the earlier calls have reached, and the error
  \<^verbatim>\<open>io.EOF\<close> at the end.
\<close>

definition bytes_Reader :: "string \<Rightarrow> nat list \<Rightarrow> string \<times> error option" where
  "bytes_Reader src sizes =
     (let pos = min (length src) (sum_list (butlast sizes))
      in if pos \<ge> length src then ([], Some (LibError ''EOF''))
         else (take (last sizes) (drop pos src), None))"

text \<open>
  A server that answers a request with the command \<^verbatim>\<open>upload, finalize\<close> by the status
  \<open>final\<close> and a \<^verbatim>\<open>file\<close> object, and any other request by the status \<^verbatim>\<open>active\<close>.
\<close>

definition sample_response :: "string \<Rightarrow> string \<Rightarrow> Response" where
  "sample_response status body =
     \<lparr>StatusCode = 200, StatusText = ''200 OK'',
      Header = [(''X-Goog-Upload-Status'', [status])], Body = (body, None)\<rparr>"

definition sample_server :: "string \<Rightarrow> upload_request list \<Rightarrow> error + Response" where
  "sample_server final reqs =
     (if reqs \<noteq> [] \<and> X_Goog_Upload_Command (last reqs) = ''upload, finalize''
      then Inr (sample_response final sample_file_body)
      else Inr (sample_response ''active'' ''{}''))"

definition sample_upload_env :: "string \<Rightarrow> string \<Rightarrow> unit upload_env" where
  "sample_upload_env src final =
     \<lparr>Read = bytes_Reader src, NewRequest = None, Do = sample_server final,
      json = sample_json\<rparr>"

definition three_bytes :: upload_request where
  "three_bytes =
     \<lparr>X_Goog_Upload_Command = ''upload, finalize'', X_Goog_Upload_Offset = 0,
      Content_Length = 3, chunk = ''abc''\<rparr>"

section \<open>Facts about the string functions\<close>

lemma occurs_at_HasPrefix: "HasPrefix s sep = occurs_at sep s 0"
  by (simp add: HasPrefix_def occurs_at_def)

lemma occurs_at_Cons_Suc [simp]: "occurs_at sep (c # cs) (Suc i) = occurs_at sep cs i"
  by (simp add: occurs_at_def)

lemma HasPrefix_append [simp]: "HasPrefix (p @ s) p"
  by (simp add: HasPrefix_def)

lemma HasPrefix_Cons_Cons [simp]: "HasPrefix (c # s) (d # p) = (c = d \<and> HasPrefix s p)"
  by (auto simp: HasPrefix_def)

lemma HasPrefix_Nil [simp]: "HasPrefix s []" "HasPrefix [] p = (p = [])"
  by (auto simp: HasPrefix_def)

lemma HasPrefix_slash_mem: "HasPrefix s (p @ ''/'') \<Longrightarrow> CHR ''/'' \<in> set s"
  by (metis HasPrefix_def in_set_conv_decomp in_set_takeD)

lemma Index_byte_absent: "c \<notin> set s \<Longrightarrow> Index s [c] = None"
  by (induction s) auto

lemma Index_byte_first: "c \<notin> set pre \<Longrightarrow> Index (pre @ c # rest) [c] = Some (length pre)"
  by (induction pre) auto

lemma Contains_byte: "Contains s [c] = (c \<in> set s)"
proof
  assume "Contains s [c]" then show "c \<in> set s"
    using Index_byte_absent [of c s] by (cases "c \<in> set s") (auto simp: Contains_def)
next
  assume "c \<in> set s"
  then obtain pre rest where "s = pre @ c # rest" "c \<notin> set pre"
    by (meson split_list_first)
  then show "Contains s [c]"
    by (simp add: Contains_def Index_byte_first)
qed

lemma SplitN2_byte:
  "c \<notin> set pre \<Longrightarrow> SplitN2 (pre @ c # rest) [c] = [pre, rest]"
  by (simp add: SplitN2_def Index_byte_first)

section \<open>The model transform\<close>

text \<open>
  Claim C5. For every non-empty string model identifier: on the hosted backend
  \<^verbatim>\<open>tModel\<close> returns an identifier prefixed with \<^verbatim>\<open>projects/\<close>, \<^verbatim>\<open>models/\<close> or
  \<^verbatim>\<open>publishers/\<close> unchanged, maps \<^verbatim>\<open>vendor/name\<close> (the vendor being the text before
  the first slash) to \<^verbatim>\<open>publishers/vendor/models/name\<close>, and maps a name with no slash to
  \<^verbatim>\<open>publishers/google/models/<name>\<close>; on the direct backend it returns an identifier
  prefixed with \<^verbatim>\<open>models/\<close> or \<^verbatim>\<open>tunedModels/\<close> unchanged and maps any other name to
  \<^verbatim>\<open>models/<name>\<close>. It never fails and never panics on such an identifier.
\<close>

theorem tModel_qualified_name:
  assumes "model \<noteq> []"
  shows "(Backend (clientConfig ac) = BackendVertexAI \<longrightarrow>
            (HasPrefix model ''projects/'' \<or> HasPrefix model ''models/''
               \<or> HasPrefix model ''publishers/'' \<longrightarrow>
             tModel ac (AnyString model) = Returns (Inr model)) \<and>
            (\<forall>vendor name.
               \<not> HasPrefix model ''projects/'' \<and> \<not> HasPrefix model ''models/''
               \<and> \<not> HasPrefix model ''publishers/''
               \<and> model = vendor @ ''/'' @ name \<and> CHR ''/'' \<notin> set vendor \<longrightarrow>
               tModel ac (AnyString model)
                 = Returns (Inr (''publishers/'' @ vendor @ ''/models/'' @ name))) \<and>
            (CHR ''/'' \<notin> set model \<longrightarrow>
             tModel ac (AnyString model)
               = Returns (Inr (''publishers/google/models/'' @ model)))) \<and>
         (Backend (clientConfig ac) \<noteq> BackendVertexAI \<longrightarrow>
            (HasPrefix model ''models/'' \<or> HasPrefix model ''tunedModels/'' \<longrightarrow>
             tModel ac (AnyString model) = Returns (Inr model)) \<and>
            (\<not> HasPrefix model ''models/'' \<and> \<not> HasPrefix model ''tunedModels/'' \<longrightarrow>
             tModel ac (AnyString model) = Returns (Inr (''models/'' @ model))))"
proof -
  have vendor: "tModel ac (AnyString model)
                  = Returns (Inr (''publishers/'' @ vendor @ ''/models/'' @ name))"
    if "Backend (clientConfig ac) = BackendVertexAI"
       "\<not> HasPrefix model ''projects/''" "\<not> HasPrefix model ''models/''"
       "\<not> HasPrefix model ''publishers/''"
       "model = vendor @ ''/'' @ name" "CHR ''/'' \<notin> set vendor"
    for vendor name
  proof -
    have "Contains model ''/''"
      using that by (simp add: Contains_byte)
    moreover have "SplitN2 model ''/'' = [vendor, name]"
      using that SplitN2_byte [of "CHR ''/''" vendor name] by simp
    ultimately show ?thesis
      using that assms by (simp add: tModel_def)
  qed
  have bare: "tModel ac (AnyString model)
                = Returns (Inr (''publishers/google/models/'' @ model))"
    if "Backend (clientConfig ac) = BackendVertexAI" "CHR ''/'' \<notin> set model"
  proof -
    have "\<not> HasPrefix model ''projects/''" "\<not> HasPrefix model ''models/''"
         "\<not> HasPrefix model ''publishers/''"
      using that(2) HasPrefix_slash_mem [of model "''projects''"]
        HasPrefix_slash_mem [of model "''models''"]
        HasPrefix_slash_mem [of model "''publishers''"] by auto
    then show ?thesis
      using that assms by (simp add: tModel_def Contains_byte)
  qed
  show ?thesis
    using assms vendor bare by (auto simp: tModel_def)
qed

theorem tModel_qualified_name_witness:
  "tModel vertex_client (AnyString ''models/m'') = Returns (Inr ''models/m'') \<and>
   tModel vertex_client (AnyString ''meta/llama/3'') = Returns (Inr ''publishers/meta/models/llama/3'') \<and>
   tModel vertex_client (AnyString ''gemini-pro'') = Returns (Inr ''publishers/google/models/gemini-pro'') \<and>
   tModel gemini_client (AnyString ''tunedModels/t'') = Returns (Inr ''tunedModels/t'') \<and>
   tModel gemini_client (AnyString ''gemini-pro'') = Returns (Inr ''models/gemini-pro'')"
proof -
  have v: "Backend (clientConfig vertex_client) = BackendVertexAI"
    and g: "Backend (clientConfig gemini_client) \<noteq> BackendVertexAI"
    by (simp_all add: vertex_client_def gemini_client_def)
  have n1: "''models/m'' \<noteq> []" and n2: "''meta/llama/3'' \<noteq> []"
    and n3: "''gemini-pro'' \<noteq> []" and n4: "''tunedModels/t'' \<noteq> []"
    by simp_all
  have "tModel vertex_client (AnyString ''models/m'') = Returns (Inr ''models/m'')"
    using tModel_qualified_name [OF n1, of vertex_client] v by simp
  moreover have "tModel vertex_client (AnyString ''meta/llama/3'')
                   = Returns (Inr (''publishers/'' @ ''meta'' @ ''/models/'' @ ''llama/3''))"
    using tModel_qualified_name [OF n2, of vertex_client, THEN conjunct1, rule_format, OF v,
            THEN conjunct2, THEN conjunct1, rule_format, of "''meta''" "''llama/3''"]
    by simp
  moreover have "tModel vertex_client (AnyString ''gemini-pro'')
                   = Returns (Inr ''publishers/google/models/gemini-pro'')"
    using tModel_qualified_name [OF n3, of vertex_client] v by simp
  moreover have "tModel gemini_client (AnyString ''tunedModels/t'') = Returns (Inr ''tunedModels/t'')"
    using tModel_qualified_name [OF n4, of gemini_client] g by simp
  moreover have "tModel gemini_client (AnyString ''gemini-pro'') = Returns (Inr ''models/gemini-pro'')"
    using tModel_qualified_name [OF n3, of gemini_client] g by simp
  ultimately show ?thesis by simp
qed

section \<open>The resource-name transform\<close>

text \<open>
  Claim C2 as the spec states it: an identifier that starts with \<^verbatim>\<open><collection>/\<close>
  comes back unchanged on both backends. On the hosted backend it does not: the
  identifier \<^verbatim>\<open>cachedContents/123\<close> of the collection \<^verbatim>\<open>cachedContents\<close> gets the
  project and the location in front.
\<close>

theorem tResourceName_unchanged_counterexample:
  "HasPrefix ''cachedContents/123'' (''cachedContents'' @ ''/'') \<and>
   tResourceName vertex_client ''cachedContents/123'' ''cachedContents'' 2
     = ''projects/p/locations/l/cachedContents/123'' \<and>
   tResourceName vertex_client ''cachedContents/123'' ''cachedContents'' 2
     \<noteq> ''cachedContents/123''"
  by (simp add: tResourceName_def vertex_client_def)

text \<open>
  Claim C2, amended. For every identifier that starts with \<^verbatim>\<open><collection>/\<close>:
  on the direct backend \<^verbatim>\<open>tResourceName\<close> returns it unchanged; on the hosted
  backend it returns it unchanged only when it starts with \<^verbatim>\<open>projects/\<close>, puts
  \<^verbatim>\<open>projects/<project>/\<close> in front when it starts with \<^verbatim>\<open>locations/\<close>, and puts
  \<^verbatim>\<open>projects/<project>/locations/<location>/\<close> in front otherwise. The expected depth
  plays no part.
\<close>

theorem tResourceName_collection_prefix:
  assumes "HasPrefix name (coll @ ''/'')"
  shows "tResourceName ac name coll depth =
           (if Backend (clientConfig ac) = BackendVertexAI then
              (if HasPrefix name ''projects/'' then name
               else if HasPrefix name ''locations/'' then
                 ''projects/'' @ Project (clientConfig ac) @ ''/'' @ name
               else ''projects/'' @ Project (clientConfig ac) @ ''/locations/''
                      @ Location (clientConfig ac) @ ''/'' @ name)
            else name)"
  using assms by (cases "Backend (clientConfig ac)") (simp_all add: tResourceName_def)

theorem tResourceName_collection_prefix_witness:
  "tResourceName gemini_client ''cachedContents/123'' ''cachedContents'' 2
     = ''cachedContents/123'' \<and>
   tResourceName vertex_client ''cachedContents/123'' ''cachedContents'' 2
     = ''projects/p/locations/l/cachedContents/123'' \<and>
   tResourceName vertex_client ''projects/q/x'' ''projects'' 2 = ''projects/q/x''"
proof -
  have h1: "HasPrefix ''cachedContents/123'' (''cachedContents'' @ ''/'')"
    and h2: "HasPrefix ''projects/q/x'' (''projects'' @ ''/'')"
    by simp_all
  show ?thesis
    using tResourceName_collection_prefix [OF h1, of gemini_client 2]
      tResourceName_collection_prefix [OF h1, of vertex_client 2]
      tResourceName_collection_prefix [OF h2, of vertex_client 2]
    by (simp add: vertex_client_def gemini_client_def)
qed

section \<open>Validation of the identifier\<close>

text \<open>
  Claim C6 at the inputs where the code leaves it. \<^verbatim>\<open>tCachedContentName\<close> checks
  nothing: the empty string comes back qualified, with a nil error, on either backend,
  and a value that is not a string makes the unchecked type assertion panic.
\<close>

theorem tCachedContentName_unvalidated:
  "tCachedContentName gemini_client (AnyString []) = Returns (Inr ''cachedContents/'') \<and>
   tCachedContentName vertex_client (AnyString [])
     = Returns (Inr ''projects/p/locations/l/cachedContents/'') \<and>
   tCachedContentName gemini_client (AnyFloat64 42)
     = Panics ''interface conversion: interface {} is not string''"
  by (simp add: tCachedContentName_def tResourceName_def Count_byte_def
        vertex_client_def gemini_client_def)

text \<open>
  The model transforms do what claim C6 says: the empty string and every value that is
  not a string give an error.
\<close>

lemma tModel_validates:
  "tModel ac (AnyString []) = Returns (Inl (Errorf ''tModel: model is empty'' []))"
  "\<forall>s. origin \<noteq> AnyString s \<Longrightarrow>
     tModel ac origin = Returns (Inl (Errorf ''tModel: model is not a string'' []))"
  by (auto simp: tModel_def split: any.splits)

lemma tModelFullName_validates:
  "tModelFullName ac (AnyString [])
     = Returns (Inl (Errorf ''tModelFullName: %w'' [W (Errorf ''tModel: model is empty'' [])]))"
  "\<forall>s. origin \<noteq> AnyString s \<Longrightarrow>
     tModelFullName ac origin
       = Returns (Inl (Errorf ''tModelFullName: model is not a string'' []))"
  by (auto simp: tModelFullName_def tModel_def split: any.splits)

section \<open>Send\<close>



section \<open>Error decoding\<close>

text \<open>
  Claim C9. \<^verbatim>\<open>newAPIError\<close> panics exactly when the body is read without error, is not
  empty, and is decoded without error into a \<^verbatim>\<open>responseWithError\<close> whose
  \<^verbatim>\<open>ErrorInfo\<close> is still nil, as it is for a JSON text with no \<^verbatim>\<open>error\<close> member: the
  dereference of the absent error object is reached, and for a status outside
  \<open>[200, 300)\<close> the call panics, where it should return an error value.
\<close>

theorem newAPIError_panics_iff:
  "((\<exists>p. newAPIError js rsp = Panics p) \<longleftrightarrow> error_object_missing js rsp) \<and>
   (error_object_missing js rsp \<and> \<not> httpStatusOk rsp \<longrightarrow>
      deserializeUnaryResponse js rsp
        = Panics ''invalid memory address or nil pointer dereference'')"
  by (auto simp: newAPIError_def deserializeUnaryResponse_def error_object_missing_def
           split: prod.splits option.splits)

text \<open>The panic is reached: a status 500 with the body \<^verbatim>\<open>{}\<close>.\<close>

theorem newAPIError_panics_witness:
  "\<not> httpStatusOk (response_500 ''{}'') \<and>
   error_object_missing sample_json (response_500 ''{}'') \<and>
   deserializeUnaryResponse sample_json (response_500 ''{}'')
     = Panics ''invalid memory address or nil pointer dereference''"
proof -
  have m: "error_object_missing sample_json (response_500 ''{}'')"
    by (simp add: error_object_missing_def response_500_def sample_json_def)
  have n: "\<not> httpStatusOk (response_500 ''{}'')"
    by (simp add: httpStatusOk_def response_500_def)
  from m n show ?thesis
    using newAPIError_panics_iff [of sample_json "response_500 ''{}''"] by blast
qed

text \<open>
  Claim C3 at the input where the code leaves it: the status 404 is not a success, the
  body \<^verbatim>\<open>{}\<close> holds no error object, and the call does not return an error. It panics.
\<close>

theorem deserializeUnaryResponse_no_error_object:
  "deserializeUnaryResponse sample_json (response_404 ''{}'')
     = Panics ''invalid memory address or nil pointer dereference''"
  by (simp add: deserializeUnaryResponse_def newAPIError_def httpStatusOk_def
        response_404_def sample_json_def)

text \<open>
  The rest of claim C3 holds: a status is a success exactly in \<open>[200, 300)\<close>; any other
  status never gives a payload; an error object in the body is returned as it was
  decoded, and an empty body gives the status code and the status text.
\<close>

lemma httpStatusOk_range: "httpStatusOk rsp \<longleftrightarrow> StatusCode rsp \<in> {200..<300}"
  by (auto simp: httpStatusOk_def)

lemma deserializeUnaryResponse_not_ok:
  assumes "\<not> httpStatusOk rsp"
  shows "deserializeUnaryResponse js rsp \<noteq> Returns (Inr m)"
    and "Body rsp = (body, None) \<Longrightarrow> body \<noteq> [] \<Longrightarrow>
         Unmarshal_responseWithError js body = (None, \<lparr>ErrorInfo = Some e\<rparr>) \<Longrightarrow>
         deserializeUnaryResponse js rsp = Returns (Inl (APIErrorValue e))"
    and "Body rsp = ([], None) \<Longrightarrow>
         deserializeUnaryResponse js rsp
           = Returns (Inl (APIErrorValue \<lparr>Code = StatusCode rsp, Message = [],
                Status = StatusText rsp, Details = []\<rparr>))"
  using assms
  by (auto simp: deserializeUnaryResponse_def newAPIError_def
           split: go.splits prod.splits option.splits)

lemma deserializeUnaryResponse_sample_errors:
  "deserializeUnaryResponse sample_json (response_404 sample_error_body)
     = Returns (Inl (APIErrorValue \<lparr>Code = 404, Message = ''not found'',
          Status = ''NOT_FOUND'', Details = []\<rparr>))"
  "deserializeUnaryResponse sample_json (response_500 [])
     = Returns (Inl (APIErrorValue \<lparr>Code = 500, Message = [],
          Status = ''500 Internal Server Error'', Details = []\<rparr>))"
  by (simp_all add: deserializeUnaryResponse_def newAPIError_def httpStatusOk_def
        response_404_def response_500_def sample_json_def sample_error_body_def)

section \<open>The split function\<close>

text \<open>\<^const>\<open>Index\<close> finds the first index where the separator stands.\<close>

lemma Index_Some_iff:
  "Index s sep = Some i \<longleftrightarrow>
     i \<le> length s \<and> occurs_at sep s i \<and> (\<forall>j<i. \<not> occurs_at sep s j)"
proof (induction s arbitrary: i)
  case Nil
  show ?case by (auto simp: occurs_at_def)
next
  case (Cons c cs)
  show ?case
  proof (cases "HasPrefix (c # cs) sep")
    case True
    then show ?thesis by (auto simp: occurs_at_HasPrefix)
  next
    case False
    note nf = False
    show ?thesis
    proof (cases i)
      case 0
      with nf show ?thesis by (auto simp: occurs_at_HasPrefix split: option.splits)
    next
      case (Suc k)
      have "(\<forall>j<Suc k. \<not> occurs_at sep (c # cs) j) \<longleftrightarrow> (\<forall>j<k. \<not> occurs_at sep cs j)"
        using nf by (auto simp: occurs_at_HasPrefix less_Suc_eq_0_disj)
      with nf Suc Cons.IH [of k] show ?thesis
        by (auto split: option.splits)
    qed
  qed
qed

lemma Index_None_iff:
  "Index s sep = None \<longleftrightarrow> (\<forall>j. \<not> occurs_at sep s j)"
proof (induction s)
  case Nil
  show ?case by (auto simp: occurs_at_def)
next
  case (Cons c cs)
  have "(\<forall>j. \<not> occurs_at sep (c # cs) j) \<longleftrightarrow>
        \<not> HasPrefix (c # cs) sep \<and> (\<forall>j. \<not> occurs_at sep cs j)"
    apply (simp add: occurs_at_HasPrefix)
    by (metis occurs_at_Cons_Suc not0_implies_Suc)
  with Cons show ?case by (auto split: option.splits)
qed

lemma occurs_at_bound: "occurs_at sep s i \<Longrightarrow> sep \<noteq> [] \<Longrightarrow> i < length s"
  by (cases "i < length s") (auto simp: occurs_at_def)

lemma Index_first:
  "sep \<noteq> [] \<Longrightarrow> occurs_at sep s i \<Longrightarrow> \<forall>j<i. \<not> occurs_at sep s j \<Longrightarrow> Index s sep = Some i"
  using occurs_at_bound [of sep s i] by (simp add: Index_Some_iff)

lemma dropCR_CR: "dropCR (xs @ [CR]) = xs"
  by (simp add: dropCR_def)

lemma dropCR_other: "xs = [] \<or> last xs \<noteq> CR \<Longrightarrow> dropCR xs = xs"
  by (auto simp: dropCR_def)

text \<open>
  Claim C1 as the spec states it fails in three places. At the end of the input the final
  token loses a trailing carriage return too, and an empty buffer gives no token at all.
  On the mixed buffer the first delimiter is the Windows-style one and the token would be
  \<^verbatim>\<open>a\<close>, but \<^verbatim>\<open>scan\<close> looks for two line feeds in the whole buffer first and returns
  the six bytes before them, the Windows-style delimiter included.
\<close>

theorem scan_as_specified_counterexample:
  "scan [CHR ''e'', CHR ''n'', CHR ''d'', CR] True = (4, Some ''end'') \<and>
   scan_as_specified [CHR ''e'', CHR ''n'', CHR ''d'', CR] True
     = (4, Some [CHR ''e'', CHR ''n'', CHR ''d'', CR]) \<and>
   scan [] True = (0, None) \<and>
   scan_as_specified [] True = (0, Some []) \<and>
   scan mixed_buffer False = (8, Some [CHR ''a'', CR, LF, CR, LF, CHR ''b'']) \<and>
   scan_as_specified mixed_buffer False = (5, Some ''a'') \<and>
   scan [CHR ''e'', CHR ''n'', CHR ''d'', CR] True
     \<noteq> scan_as_specified [CHR ''e'', CHR ''n'', CHR ''d'', CR] True"
  by (simp add: scan_def scan_as_specified_def first_delimiter_def mixed_buffer_def
        dropCR_def LF_def CR_def)

text \<open>
  Claim C1, amended. For every buffered input: at the end of the input with an empty
  buffer \<^verbatim>\<open>scan\<close> emits no token. If the first blank-line delimiter in the buffer is
  two consecutive line feeds, or is a Windows-style delimiter and the buffer holds no two
  consecutive line feeds, the token is the bytes before that delimiter, with a single
  trailing carriage return dropped, and the scanner advances past the delimiter. If the
  buffer holds no delimiter, then at the end of the input the remaining bytes, if there
  are any, with a single trailing carriage return dropped, are the final token, and
  before the end no token is emitted and more bytes are requested. (A buffer where two
  line feeds follow an earlier Windows-style delimiter is left out.)
\<close>

theorem scan_token:
  "(atEOF \<and> data = [] \<longrightarrow> scan data atEOF = (0, None)) \<and>
   (\<forall>i. occurs_at [LF, LF] data i \<and> (\<forall>j<i. \<not> occurs_at [LF, LF] data j) \<and>
        (\<forall>j<i. \<not> occurs_at [CR, LF, CR, LF] data j) \<longrightarrow>
        scan data atEOF = (i + 2, Some (dropCR (take i data)))) \<and>
   (\<forall>i. (\<forall>j. \<not> occurs_at [LF, LF] data j) \<and>
        occurs_at [CR, LF, CR, LF] data i \<and> (\<forall>j<i. \<not> occurs_at [CR, LF, CR, LF] data j) \<longrightarrow>
        scan data atEOF = (i + 4, Some (dropCR (take i data)))) \<and>
   ((\<forall>j. \<not> occurs_at [LF, LF] data j) \<and> (\<forall>j. \<not> occurs_at [CR, LF, CR, LF] data j) \<longrightarrow>
        (atEOF \<and> data \<noteq> [] \<longrightarrow> scan data atEOF = (length data, Some (dropCR data))) \<and>
        (\<not> atEOF \<longrightarrow> scan data atEOF = (0, None)))"
proof (intro conjI allI impI)
  assume "atEOF \<and> data = []"
  then show "scan data atEOF = (0, None)"
    by (simp add: scan_def)
next
  fix i
  assume h: "occurs_at [LF, LF] data i \<and> (\<forall>j<i. \<not> occurs_at [LF, LF] data j) \<and>
        (\<forall>j<i. \<not> occurs_at [CR, LF, CR, LF] data j)"
  then have "Index data [LF, LF] = Some i"
    by (simp add: Index_first)
  moreover have "data \<noteq> []"
    using h occurs_at_bound [of "[LF, LF]" data i] by auto
  ultimately show "scan data atEOF = (i + 2, Some (dropCR (take i data)))"
    by (simp add: scan_def)
next
  fix i
  assume h: "(\<forall>j. \<not> occurs_at [LF, LF] data j) \<and>
        occurs_at [CR, LF, CR, LF] data i \<and> (\<forall>j<i. \<not> occurs_at [CR, LF, CR, LF] data j)"
  then have "Index data [LF, LF] = None" "Index data [CR, LF, CR, LF] = Some i"
    by (simp_all add: Index_first Index_None_iff)
  moreover have "data \<noteq> []"
    using h occurs_at_bound [of "[CR, LF, CR, LF]" data i] by auto
  ultimately show "scan data atEOF = (i + 4, Some (dropCR (take i data)))"
    by (simp add: scan_def)
next
  assume h: "(\<forall>j. \<not> occurs_at [LF, LF] data j) \<and> (\<forall>j. \<not> occurs_at [CR, LF, CR, LF] data j)"
    and e: "atEOF \<and> data \<noteq> []"
  from h have "Index data [LF, LF] = None" "Index data [CR, LF, CR, LF] = None"
    by (simp_all add: Index_None_iff)
  with e show "scan data atEOF = (length data, Some (dropCR data))"
    by (simp add: scan_def)
next
  assume h: "(\<forall>j. \<not> occurs_at [LF, LF] data j) \<and> (\<forall>j. \<not> occurs_at [CR, LF, CR, LF] data j)"
    and e: "\<not> atEOF"
  from h have "Index data [LF, LF] = None" "Index data [CR, LF, CR, LF] = None"
    by (simp_all add: Index_None_iff)
  with e show "scan data atEOF = (0, None)"
    by (simp add: scan_def)
qed

theorem scan_token_witness:
  "scan [] True = (0, None) \<and>
   scan [CHR ''a'', CR, LF, LF, CHR ''b''] False = (4, Some ''a'') \<and>
   scan [CHR ''a'', CR, CR, LF, CR, LF, CHR ''b''] False = (6, Some ''a'') \<and>
   scan [CHR ''e'', CHR ''n'', CHR ''d'', CR] True = (4, Some ''end'') \<and>
   scan ''part'' False = (0, None)"
proof -
  have c1: "scan [] True = (0, None)"
    using scan_token [of True "[]"] by simp
  let ?u = "[CHR ''a'', CR, LF, LF, CHR ''b'']"
  have "Index ?u [LF, LF] = Some 2" "Index ?u [CR, LF, CR, LF] = None"
    by (simp_all add: LF_def CR_def)
  then have "occurs_at [LF, LF] ?u 2 \<and> (\<forall>j<2. \<not> occurs_at [LF, LF] ?u j) \<and>
        (\<forall>j<2. \<not> occurs_at [CR, LF, CR, LF] ?u j)"
    by (simp only: Index_Some_iff Index_None_iff) simp
  then have "scan ?u False = (2 + 2, Some (dropCR (take 2 ?u)))"
    using scan_token [of False ?u] by blast
  then have c2: "scan ?u False = (4, Some ''a'')"
    by (simp add: dropCR_def)
  let ?w = "[CHR ''a'', CR, CR, LF, CR, LF, CHR ''b'']"
  have "Index ?w [LF, LF] = None" "Index ?w [CR, LF, CR, LF] = Some 2"
    by (simp_all add: LF_def CR_def)
  then have "(\<forall>j. \<not> occurs_at [LF, LF] ?w j) \<and>
        occurs_at [CR, LF, CR, LF] ?w 2 \<and> (\<forall>j<2. \<not> occurs_at [CR, LF, CR, LF] ?w j)"
    by (simp only: Index_Some_iff Index_None_iff) simp
  then have "scan ?w False = (2 + 4, Some (dropCR (take 2 ?w)))"
    using scan_token [of False ?w] by blast
  then have c3: "scan ?w False = (6, Some ''a'')"
    by (simp add: dropCR_def)
  let ?e = "[CHR ''e'', CHR ''n'', CHR ''d'', CR]"
  have "Index ?e [LF, LF] = None" "Index ?e [CR, LF, CR, LF] = None"
    by (simp_all add: LF_def CR_def)
  then have n: "(\<forall>j. \<not> occurs_at [LF, LF] ?e j) \<and> (\<forall>j. \<not> occurs_at [CR, LF, CR, LF] ?e j)"
    by (simp only: Index_None_iff) simp
  have "scan ?e True = (length ?e, Some (dropCR ?e))"
    using scan_token [of True ?e] n by blast
  then have c4: "scan ?e True = (4, Some ''end'')"
    by (simp add: dropCR_def)
  have "Index ''part'' [LF, LF] = None" "Index ''part'' [CR, LF, CR, LF] = None"
    by (simp_all add: LF_def CR_def)
  then have "(\<forall>j. \<not> occurs_at [LF, LF] ''part'' j) \<and>
             (\<forall>j. \<not> occurs_at [CR, LF, CR, LF] ''part'' j)"
    by (simp only: Index_None_iff) simp
  then have c5: "scan ''part'' False = (0, None)"
    using scan_token [of False "''part''"] by blast
  from c1 c2 c3 c4 c5 show ?thesis by simp
qed

section \<open>The iterator\<close>

text \<open>
  What one token yields to a consumer that keeps pulling: nothing for the empty token, one
  error for a token with another prefix, and for a \<^verbatim>\<open>data\<close> token the error of the
  decoder if any, the error of the converter if any, and then always the converter's event
  with a nil error. A run only ever adds items.
\<close>

lemma Cut_Nil: "Cut [] '':'' = ([], [], False)"
  by (simp add: Cut_def)

lemma iterateToken_empty: "iterateToken js conv keep [] st = (True, st)"
  by (simp add: iterateToken_def)

lemma iterateToken_other_prefix:
  assumes "line \<noteq> []" and "Cut line '':'' = (prefix, data, found)" and "prefix \<noteq> ''data''"
  shows "iterateToken js conv (\<lambda>items. True) line st =
           (True, st\<lparr>yielded := yielded st @
              [(None, Some (Errorf ''iterateResponseStream: invalid stream chunk: %s:%s''
                              [S prefix, S data]))]\<rparr>)"
  using assms by (simp add: iterateToken_def yield_def)

lemma iterateToken_data:
  assumes "Cut line '':'' = (''data'', data, found)"
    and "Unmarshal_map js data = (uerr, respRaw)"
    and "conv respRaw = (event, cerr)"
  shows "iterateToken js conv (\<lambda>items. True) line st =
           (True, st\<lparr>yielded := yielded st @
              (case uerr of
                 Some err \<Rightarrow>
                   [(None, Some (Errorf
                      ''iterateResponseStream: error unmarshalling data %s:%s. error: %w''
                      [S ''data'', S data, W err]))]
               | None \<Rightarrow> []) @
              (case cerr of Some err \<Rightarrow> [(None, Some err)] | None \<Rightarrow> []) @
              [(event, None)],
            converted := converted st @ [respRaw]\<rparr>)"
proof -
  have "line \<noteq> []"
    using assms(1) by (auto simp: Cut_Nil)
  then show ?thesis
    using assms by (cases uerr; cases cerr) (simp_all add: iterateToken_def yield_def)
qed

lemma iterateToken_extends:
  "\<exists>more. yielded (snd (iterateToken js conv keep line st)) = yielded st @ more"
  by (auto simp: iterateToken_def yield_def Let_def split: prod.splits option.splits bool.splits)

lemma iterateResponseStream_extends:
  "\<exists>more. yielded (iterateResponseStream js conv keep lines st) = yielded st @ more"
proof (induction lines arbitrary: st)
  case Nil
  show ?case by simp
next
  case (Cons line rest)
  obtain go st' where t: "iterateToken js conv keep line st = (go, st')"
    by (cases "iterateToken js conv keep line st")
  obtain m1 where m1: "yielded st' = yielded st @ m1"
    using iterateToken_extends [of js conv keep line st] t by auto
  show ?case
  proof (cases go)
    case True
    obtain m2 where "yielded (iterateResponseStream js conv keep rest st') = yielded st' @ m2"
      using Cons.IH [of st'] by auto
    with t True m1 show ?thesis by simp
  next
    case False
    with t m1 show ?thesis by simp
  qed
qed

text \<open>
  Claim C7 as the spec states it fails on the empty token, which the scanner delivers for
  a blank-line delimiter at the start of the buffer: the text before its first colon is
  not \<^verbatim>\<open>data\<close>, and the loop skips it without an item.
\<close>

theorem iterateResponseStream_empty_token_counterexample:
  "scan [LF, LF, CHR ''d''] False = (2, Some []) \<and>
   fst (Cut [] '':'') \<noteq> ''data'' \<and>
   yielded (iterateResponseStream sample_json (\<lambda>m. (Some (0::nat), None)) (\<lambda>items. True)
              [[]] empty_run) = []"
  by (simp add: scan_def dropCR_def LF_def Cut_def iterateToken_def empty_run_def)

text \<open>
  Claim C7, amended. For every non-empty stream token whose prefix (the text before the
  first colon) is not \<^verbatim>\<open>data\<close>, and for every \<^verbatim>\<open>data\<close> token whose payload the
  decoder or the converter rejects, the iterator yields an error item, and the error does
  not end the sequence: for a consumer that keeps pulling, a well-formed \<^verbatim>\<open>data\<close>
  token that comes next is decoded into its event, which is yielded with a nil error
  after the error.
\<close>

theorem iterateResponseStream_error_not_terminal:
  assumes "line \<noteq> []"
    and "Cut line '':'' = (prefix, data, found)"
    and "Unmarshal_map js data = (uerr, respRaw)"
    and "conv respRaw = (event, cerr)"
    and "prefix \<noteq> ''data'' \<or> uerr \<noteq> None \<or> cerr \<noteq> None"
    and "Cut good '':'' = (''data'', gdata, gfound)"
    and "Unmarshal_map js gdata = (None, gmap)"
    and "conv gmap = (Some ev, None)"
  shows "\<exists>e more later.
           yielded (iterateResponseStream js conv (\<lambda>items. True) (line # good # rest) st)
             = yielded st @ (None, Some e) # more @ (Some ev, None) # later"
proof -
  obtain e more st1 where
    t1: "iterateToken js conv (\<lambda>items. True) line st = (True, st1)"
    and y1: "yielded st1 = yielded st @ (None, Some e) # more"
  proof (cases "prefix = ''data''")
    case False
    with assms(1,2) that show ?thesis
      by (simp add: iterateToken_other_prefix)
  next
    case True
    with assms(5) have bad: "uerr \<noteq> None \<or> cerr \<noteq> None"
      by simp
    have tok: "iterateToken js conv (\<lambda>items. True) line st =
           (True, st\<lparr>yielded := yielded st @
              (case uerr of
                 Some err \<Rightarrow>
                   [(None, Some (Errorf
                      ''iterateResponseStream: error unmarshalling data %s:%s. error: %w''
                      [S ''data'', S data, W err]))]
               | None \<Rightarrow> []) @
              (case cerr of Some err \<Rightarrow> [(None, Some err)] | None \<Rightarrow> []) @
              [(event, None)],
            converted := converted st @ [respRaw]\<rparr>)"
      using assms(2,3,4) True by (intro iterateToken_data) simp_all
    show ?thesis
    proof (cases uerr)
      case (Some ue)
      with tok that show ?thesis
        by simp
    next
      case None
      with bad obtain ce where "cerr = Some ce"
        by auto
      with None tok that show ?thesis
        by simp
    qed
  qed
  have t2: "iterateToken js conv (\<lambda>items. True) good st1 =
              (True, st1\<lparr>yielded := yielded st1 @ [(Some ev, None)],
                         converted := converted st1 @ [gmap]\<rparr>)"
    using iterateToken_data [where conv = conv and js = js and line = good and st = st1
            and uerr = None and cerr = None, OF assms(6) assms(7) assms(8)]
    by simp
  obtain later where
    "yielded (iterateResponseStream js conv (\<lambda>items. True) rest
                (st1\<lparr>yielded := yielded st1 @ [(Some ev, None)],
                     converted := converted st1 @ [gmap]\<rparr>))
       = (yielded st1 @ [(Some ev, None)]) @ later"
    using iterateResponseStream_extends
      [of js conv "\<lambda>items. True" rest
          "st1\<lparr>yielded := yielded st1 @ [(Some ev, None)], converted := converted st1 @ [gmap]\<rparr>"]
    by auto
  with t1 t2 y1 have
    "yielded (iterateResponseStream js conv (\<lambda>items. True) (line # good # rest) st)
       = yielded st @ (None, Some e) # more @ (Some ev, None) # later"
    by simp
  then show ?thesis
    by blast
qed

theorem iterateResponseStream_error_not_terminal_witness:
  "\<exists>e more later.
     yielded (iterateResponseStream sample_json (\<lambda>m. (Some (0::nat), None)) (\<lambda>items. True)
                [''event:ping'', ''data:{}''] empty_run)
       = (None, Some e) # more @ (Some 0, None) # later"
proof -
  have "\<exists>e more later.
     yielded (iterateResponseStream sample_json (\<lambda>m. (Some (0::nat), None)) (\<lambda>items. True)
                (''event:ping'' # ''data:{}'' # []) empty_run)
       = yielded (empty_run :: nat run) @ (None, Some e) # more @ (Some 0, None) # later"
  proof (rule iterateResponseStream_error_not_terminal)
    show "''event:ping'' \<noteq> []" by simp
    show "Cut ''event:ping'' '':'' = (''event'', ''ping'', True)"
      by (simp add: Cut_def)
    show "Unmarshal_map sample_json ''ping'' = (Some (LibError ''invalid character''), Some [])"
      by (simp add: sample_json_def sample_file_body_def)
    show "(\<lambda>m. (Some (0::nat), None)) (Some []) = (Some 0, None)" by simp
    show "''event'' \<noteq> ''data'' \<or> Some (LibError ''invalid character'') \<noteq> None
            \<or> (None :: error option) \<noteq> None" by simp
    show "Cut ''data:{}'' '':'' = (''data'', ''{}'', True)"
      by (simp add: Cut_def)
    show "Unmarshal_map sample_json ''{}'' = (None, Some [])"
      by (simp add: sample_json_def sample_file_body_def)
    show "(\<lambda>m. (Some (0::nat), None)) (Some []) = (Some 0, None)" by simp
  qed
  then show ?thesis
    by (simp add: empty_run_def)
qed

text \<open>The run of this example in full.\<close>

lemma iterateResponseStream_ping_then_data:
  "yielded (iterateResponseStream sample_json (\<lambda>m. (Some (0::nat), None)) (\<lambda>items. True)
              [''event:ping'', ''data:{}''] empty_run)
     = [(None, Some (Errorf ''iterateResponseStream: invalid stream chunk: %s:%s''
                       [S ''event'', S ''ping''])),
        (Some 0, None)]"
  by (simp add: iterateToken_def yield_def Cut_def sample_json_def sample_file_body_def empty_run_def)

text \<open>
  Claim C10 as stated fails where the decoder rejects the payload and the converter
  accepts the map that is left: the additional item then carries the converter's event,
  not a nil event.
\<close>

theorem iterateResponseStream_extra_item_counterexample:
  "yielded (iterateResponseStream sample_json (\<lambda>m. (Some (0::nat), None)) (\<lambda>items. True)
              [''data:{''] empty_run)
     = [(None, Some (Errorf
           ''iterateResponseStream: error unmarshalling data %s:%s. error: %w''
           [S ''data'', S ''{'', W (LibError ''invalid character'')])),
        (Some 0, None)] \<and>
   (None, None) \<notin> set (yielded (iterateResponseStream sample_json
        (\<lambda>m. (Some (0::nat), None)) (\<lambda>items. True) [''data:{''] empty_run))"
  by (simp add: iterateToken_def yield_def Cut_def sample_json_def sample_file_body_def empty_run_def)

text \<open>
  Claim C10, amended. When the JSON payload of a \<^verbatim>\<open>data\<close> token fails to unmarshal, or
  the conversion function returns an error, and the consumer keeps pulling, the iterator
  does not skip the token. After an unmarshal failure it yields that error and still
  calls the conversion function on the map the decoder left; after an error of the
  conversion function it yields that error; and in every case it then yields one more
  item for the same token, the event the conversion function returned (nil when it
  returned nil with its error) paired with a nil error, before it goes on to the next
  token.
\<close>

theorem iterateResponseStream_faulty_data_token:
  assumes "Cut line '':'' = (''data'', data, found)"
    and "Unmarshal_map js data = (uerr, respRaw)"
    and "conv respRaw = (event, cerr)"
    and "uerr \<noteq> None \<or> cerr \<noteq> None"
  shows "iterateResponseStream js conv (\<lambda>items. True) (line # rest) st =
           iterateResponseStream js conv (\<lambda>items. True) rest
             (st\<lparr>yielded := yielded st @
                (case uerr of
                   Some err \<Rightarrow>
                     [(None, Some (Errorf
                        ''iterateResponseStream: error unmarshalling data %s:%s. error: %w''
                        [S ''data'', S data, W err]))]
                 | None \<Rightarrow> []) @
                (case cerr of Some err \<Rightarrow> [(None, Some err)] | None \<Rightarrow> []) @
                [(event, None)],
              converted := converted st @ [respRaw]\<rparr>)"
proof -
  have "iterateToken js conv (\<lambda>items. True) line st =
           (True, st\<lparr>yielded := yielded st @
              (case uerr of
                 Some err \<Rightarrow>
                   [(None, Some (Errorf
                      ''iterateResponseStream: error unmarshalling data %s:%s. error: %w''
                      [S ''data'', S data, W err]))]
               | None \<Rightarrow> []) @
              (case cerr of Some err \<Rightarrow> [(None, Some err)] | None \<Rightarrow> []) @
              [(event, None)],
            converted := converted st @ [respRaw]\<rparr>)"
    using assms(1,2,3) by (intro iterateToken_data) simp_all
  then show ?thesis
    by simp
qed

theorem iterateResponseStream_faulty_data_token_witness:
  "iterateResponseStream sample_json (\<lambda>m. (None :: nat option, Some (LibError ''conversion'')))
       (\<lambda>items. True) [''data:{''] empty_run
     = \<lparr>yielded =
          [(None, Some (Errorf
              ''iterateResponseStream: error unmarshalling data %s:%s. error: %w''
              [S ''data'', S ''{'', W (LibError ''invalid character'')])),
           (None, Some (LibError ''conversion'')),
           (None, None)],
        converted = [Some []]\<rparr>"
proof -
  have c: "Cut ''data:{'' '':'' = (''data'', ''{'', True)"
    by (simp add: Cut_def)
  have u: "Unmarshal_map sample_json ''{'' = (Some (LibError ''invalid character''), Some [])"
    by (simp add: sample_json_def sample_file_body_def)
  have v: "(\<lambda>m. (None :: nat option, Some (LibError ''conversion''))) (Some [])
             = (None, Some (LibError ''conversion''))"
    by simp
  have b: "Some (LibError ''invalid character'') \<noteq> None
             \<or> Some (LibError ''conversion'') \<noteq> None"
    by simp
  show ?thesis
    using iterateResponseStream_faulty_data_token
      [where conv = "\<lambda>m. (None :: nat option, Some (LibError ''conversion''))"
         and js = sample_json and line = "''data:{''" and rest = "[]" and st = empty_run,
       OF c u v b]
    by (simp add: empty_run_def)
qed

section \<open>The upload loop\<close>

lemma uploadFile_initial:
  "uploadFile env n =
     (case uploadLoop env n initial_upload_state of
        (Panic_with p, st) \<Rightarrow> (Panics p, sent st)
      | (Return_error err, st) \<Rightarrow> (Returns (Inl err), sent st)
      | (_, st) \<Rightarrow>
          (case resp st of
             None \<Rightarrow>
               (Returns (Inl (Errorf ''Upload request failed. No response received'' [])),
                sent st)
           | Some r \<Rightarrow>
               if Header_Get (Header r) ''X-Goog-Upload-Status'' \<noteq> ''final'' then
                 (Returns (Inl (Errorf
                    ''Failed to upload file: Upload status is not finalized'' [])), sent st)
               else
                 (case (case respBody st of None \<Rightarrow> None | Some m \<Rightarrow> map_of m ''file'') of
                    Some (AnyMap file) \<Rightarrow>
                      (case mapToStruct (json env) file of
                         Inl err \<Rightarrow> (Returns (Inl err), sent st)
                       | Inr response \<Rightarrow> (Returns (Inr response), sent st))
                  | _ \<Rightarrow>
                      (Panics ''interface conversion: interface {} is not map[string]interface {}'',
                       sent st))))"
  by (simp add: uploadFile_def initial_upload_state_def)

text \<open>The loop goes round after a pass that ends at the bottom, and stops otherwise.\<close>

lemma uploadLoop_next:
  "uploadChunk env n st = (Next, st') \<Longrightarrow> uploadLoop env n st = uploadLoop env n st'"
  by (subst uploadLoop.simps) simp

lemma uploadLoop_stop:
  "uploadChunk env n st = (f, st') \<Longrightarrow> f \<noteq> Next \<Longrightarrow> uploadLoop env n st = (f, st')"
  by (subst uploadLoop.simps) (cases f; simp)

lemma uploadFile_sent: "snd (uploadFile env n) = sent (snd (uploadLoop env n initial_upload_state))"
  by (simp add: uploadFile_initial split: prod.splits flow.splits option.splits sum.splits
        any.splits)

text \<open>
  One pass sends at most one request, a well sized one; when it leaves the body at the
  bottom or by \<^verbatim>\<open>break\<close>, \<^verbatim>\<open>resp\<close> is the answer to the last request sent.
\<close>

lemma uploadChunk_sent:
  assumes "uploadChunk env n st = (f, st')"
  shows "sent st' = sent st \<or> (\<exists>req. sent st' = sent st @ [req] \<and> well_sized n req)"
  using assms
  by (auto simp: uploadChunk_def Let_def well_sized_def doRequest_def
           split: if_splits prod.splits option.splits sum.splits go.splits)

lemma uploadChunk_resp:
  assumes "uploadChunk env n st = (f, st')" and "f = Next \<or> f = Break"
  shows "\<exists>r. resp st' = Some r \<and> Do env (sent st') = Inr r \<and> sent st' \<noteq> []"
  using assms
  by (auto simp: uploadChunk_def Let_def doRequest_def
           split: if_splits prod.splits option.splits sum.splits go.splits)

lemma uploadLoop_result:
  assumes "uploadLoop env n st = (f, st')"
  shows "f \<noteq> Next \<and>
         (f = Break \<longrightarrow> (\<exists>r. resp st' = Some r \<and> Do env (sent st') = Inr r \<and> sent st' \<noteq> []))"
  using assms
proof (induction env n st rule: uploadLoop.induct)
  case (1 env n st)
  obtain g st1 where c: "uploadChunk env n st = (g, st1)"
    by (cases "uploadChunk env n st")
  show ?case
  proof (cases "g = Next")
    case True
    with c have "uploadLoop env n st = uploadLoop env n st1"
      by (simp add: uploadLoop_next)
    with 1 c True show ?thesis
      by simp
  next
    case False
    with c have "uploadLoop env n st = (g, st1)"
      by (rule uploadLoop_stop)
    with "1.prems" have "f = g" "st' = st1"
      by simp_all
    with c False uploadChunk_resp [of env n st g st1] show ?thesis
      by simp
  qed
qed

lemma uploadLoop_well_sized:
  assumes "\<forall>req \<in> set (sent st). well_sized n req"
  shows "\<forall>req \<in> set (sent (snd (uploadLoop env n st))). well_sized n req"
  using assms
proof (induction env n st rule: uploadLoop.induct)
  case (1 env n st)
  obtain g st1 where c: "uploadChunk env n st = (g, st1)"
    by (cases "uploadChunk env n st")
  have s1: "\<forall>req \<in> set (sent st1). well_sized n req"
    using uploadChunk_sent [OF c] "1.prems" by auto
  show ?case
  proof (cases "g = Next")
    case True
    with c have "uploadLoop env n st = uploadLoop env n st1"
      by (simp add: uploadLoop_next)
    with "1.IH" c True s1 show ?thesis
      by simp
  next
    case False
    with c have "uploadLoop env n st = (g, st1)"
      by (rule uploadLoop_stop)
    with s1 show ?thesis
      by simp
  qed
qed

lemma uploadFile_two_chunks:
  assumes r1: "Read env [nat maxChunkSize] = (b1, None)" and l1: "int (length b1) = maxChunkSize"
    and r2: "Read env [nat maxChunkSize, nat maxChunkSize] = (b2, None)"
    and l2: "int (length b2) = maxChunkSize"
    and nr: "NewRequest env = None"
    and d1: "Do env [first_chunk b1] = Inr rsp1"
    and b1: "deserializeUnaryResponse (json env) rsp1 = Returns (Inr body1)"
    and a1: "Header_Get (Header rsp1) ''X-Goog-Upload-Status'' = ''active''"
  shows "snd (uploadFile env (2 * maxChunkSize)) = [first_chunk b1, second_chunk b2]"
proof -
  let ?st1 = "\<lparr>offset = maxChunkSize, resp = Some rsp1, respBody = Some body1,
               uploadCommand = ''upload'', reads = [nat maxChunkSize],
               sent = [first_chunk b1]\<rparr>"
  have pos: "0 < maxChunkSize"
    by (simp add: maxChunkSize_def)
  have c1: "uploadChunk env (2 * maxChunkSize) initial_upload_state = (Next, ?st1)"
    using r1 l1 nr d1 b1 a1 pos
    by (simp add: uploadChunk_def initial_upload_state_def Let_def doRequest_def
          first_chunk_def)
  obtain f st2 where c2: "uploadChunk env (2 * maxChunkSize) ?st1 = (f, st2)"
    by (cases "uploadChunk env (2 * maxChunkSize) ?st1")
  have "f \<noteq> Next \<and> sent st2 = [first_chunk b1, second_chunk b2]"
    using c2 r2 l2 nr pos
    by (auto simp: uploadChunk_def Let_def doRequest_def second_chunk_def
             split: if_splits prod.splits option.splits sum.splits go.splits)
  then have "uploadLoop env (2 * maxChunkSize) ?st1 = (f, st2)"
    and s: "sent st2 = [first_chunk b1, second_chunk b2]"
    using c2 by (simp_all add: uploadLoop_stop)
  then have "uploadLoop env (2 * maxChunkSize) initial_upload_state = (f, st2)"
    using c1 by (simp add: uploadLoop_next)
  with s show ?thesis
    by (simp add: uploadFile_sent)
qed

lemma uploadFile_returns_file:
  assumes "uploadFile env n = (Returns (Inr file), reqs)"
  shows "\<exists>r. reqs \<noteq> [] \<and> Do env reqs = Inr r
           \<and> Header_Get (Header r) ''X-Goog-Upload-Status'' = ''final''"
proof -
  obtain f st where l: "uploadLoop env n initial_upload_state = (f, st)"
    by (cases "uploadLoop env n initial_upload_state")
  from l assms have fb: "f = Break" and rq: "reqs = sent st"
    using uploadLoop_result [OF l]
    by (auto simp: uploadFile_initial
             split: flow.splits option.splits if_splits sum.splits any.splits)
  then obtain r where r: "resp st = Some r" "Do env (sent st) = Inr r" "sent st \<noteq> []"
    using uploadLoop_result [OF l] by auto
  with l assms fb have "Header_Get (Header r) ''X-Goog-Upload-Status'' = ''final''"
    by (auto simp: uploadFile_initial
             split: flow.splits option.splits if_splits sum.splits any.splits)
  with r rq show ?thesis
    by simp
qed

lemma uploadFile_not_final:
  assumes "uploadLoop env n initial_upload_state = (Break, st)" and "resp st = Some r"
    and "Header_Get (Header r) ''X-Goog-Upload-Status'' \<noteq> ''final''"
  shows "fst (uploadFile env n)
           = Returns (Inl (Errorf ''Failed to upload file: Upload status is not finalized'' []))"
  using assms by (simp add: uploadFile_initial)

lemma uploadFile_well_sized: "\<forall>req \<in> set (snd (uploadFile env n)). well_sized n req"
  using uploadLoop_well_sized [of initial_upload_state n env]
  by (simp add: uploadFile_sent initial_upload_state_def)

lemma uploadLoop_three_bytes:
  "final \<noteq> ''active'' \<Longrightarrow>
   uploadLoop (sample_upload_env ''abc'' final) 3 initial_upload_state =
     (Break,
      \<lparr>offset = 3, resp = Some (sample_response final sample_file_body),
       respBody = Some [(''httpHeaders'', AnyHeader [(''X-Goog-Upload-Status'', [final])]),
                        (''file'', AnyMap [])],
       uploadCommand = ''upload, finalize'', reads = [3], sent = [three_bytes]\<rparr>)"
proof (rule uploadLoop_stop)
  assume "final \<noteq> ''active''"
  then show "uploadChunk (sample_upload_env ''abc'' final) 3 initial_upload_state =
     (Break,
      \<lparr>offset = 3, resp = Some (sample_response final sample_file_body),
       respBody = Some [(''httpHeaders'', AnyHeader [(''X-Goog-Upload-Status'', [final])]),
                        (''file'', AnyMap [])],
       uploadCommand = ''upload, finalize'', reads = [3], sent = [three_bytes]\<rparr>)"
    by (simp add: uploadChunk_def initial_upload_state_def sample_upload_env_def
          bytes_Reader_def sample_server_def sample_response_def sample_json_def
          sample_file_body_def three_bytes_def maxChunkSize_def doRequest_def
          deserializeUnaryResponse_def httpStatusOk_def map_assign_def Header_Get_def
          Let_def)
next
  show "Break \<noteq> Next" by simp
qed

lemma uploadFile_three_bytes:
  "uploadFile (sample_upload_env ''abc'' ''final'') 3 = (Returns (Inr ()), [three_bytes])"
  by (simp add: uploadFile_initial uploadLoop_three_bytes sample_response_def Header_Get_def
        mapToStruct_def)
    (simp add: sample_upload_env_def sample_json_def)



end
